theory Spec2Isabelle
  imports Main
begin

section \<open>kerb\_sts/auth.py: authenticators for Kerberos, NTLM and keytabs\<close>

text \<open>
  The module prepares local authentication state by running the host's Kerberos tools
  (\<^verbatim>\<open>klist\<close>, \<^verbatim>\<open>kinit\<close>) and builds handler objects of \<^verbatim>\<open>requests_kerberos\<close> and
  \<^verbatim>\<open>requests_ntlm\<close>. Its effects are: starting external processes, writing to the
  interactive input of a child, logging, setting an environment variable, and allocating
  handler objects. They are modelled by explicit state passing over a \<open>world\<close> record
  whose \<open>trace\<close> lists the effects in program order; what the external tools answer is
  a parameter of every function (\<open>tools\<close>). Exceptions are values: a constructor
  returns \<open>exn + authenticator\<close>, \<open>Inl\<close> the exception raised to the caller.
\<close>

subsection \<open>Python values\<close>

text \<open>
  A Python \<^verbatim>\<open>str\<close> is a \<open>string\<close>; a \<open>char\<close> stands for a code point below 256.
  A parameter that defaults to \<^verbatim>\<open>None\<close> is a \<open>string option\<close>.
\<close>

text \<open>Truth value of \<^verbatim>\<open>None\<close> or a \<^verbatim>\<open>str\<close>: only a non-empty string is true.\<close>

fun truthy :: "string option \<Rightarrow> bool" where
  "truthy None = False"
| "truthy (Some s) = (s \<noteq> [])"

text \<open>What a \<^verbatim>\<open>{}\<close> field of \<^verbatim>\<open>str.format\<close> renders for \<^verbatim>\<open>None\<close> or a \<^verbatim>\<open>str\<close>.\<close>

fun py_format :: "string option \<Rightarrow> string" where
  "py_format None = ''None''"
| "py_format (Some s) = s"

text \<open>\<^verbatim>\<open>str.isspace\<close> of one character, for the code points below 256.\<close>

definition isspace :: "char \<Rightarrow> bool" where
  "isspace c \<longleftrightarrow> c \<in> {CHR 0x09, CHR 0x0A, CHR 0x0B, CHR 0x0C, CHR 0x0D,
                      CHR 0x1C, CHR 0x1D, CHR 0x1E, CHR 0x1F, CHR 0x20, CHR 0x85, CHR 0xA0}"

text \<open>\<^verbatim>\<open>p in a\<close> for two strings: \<open>p\<close> occurs in \<open>a\<close> as a contiguous run.\<close>

fun contains :: "string \<Rightarrow> string \<Rightarrow> bool" where
  "contains p [] = (p = [])"
| "contains p (c # cs) = (take (length p) (c # cs) = p \<or> contains p cs)"

text \<open>
  \<^verbatim>\<open>os.path.join(a, b)\<close> of \<^verbatim>\<open>posixpath\<close>: an absolute \<open>b\<close> replaces \<open>a\<close>; otherwise
  \<open>b\<close> is appended, after a separator unless \<open>a\<close> is empty or already ends with one.
\<close>

definition os_path_join :: "string \<Rightarrow> string \<Rightarrow> string" where
  "os_path_join a b =
     (if take 1 b = ''/'' then b
      else if a = [] \<or> last a = CHR ''/'' then a @ b
      else a @ ''/'' @ b)"

subsection \<open>The command line parser of \<^verbatim>\<open>pexpect\<close>\<close>

text \<open>
  \<^verbatim>\<open>pexpect.spawn(command)\<close> with no argument list splits \<open>command\<close> with its
  \<^verbatim>\<open>split_command_line\<close>: a state machine over the characters that separates
  arguments at whitespace and understands backslash escapes, single and double quotes.
  The argument list it returns is what the child process is started with.
\<close>

datatype split_state =
  state_basic | state_esc | state_singlequote | state_doublequote | state_whitespace

fun split_loop :: "string list \<Rightarrow> string \<Rightarrow> split_state \<Rightarrow> string \<Rightarrow> string list" where
  "split_loop arg_list arg state [] = (if arg \<noteq> [] then arg_list @ [arg] else arg_list)"
| "split_loop arg_list arg state (c # cs) =
     (if state = state_basic \<or> state = state_whitespace then
        (if c = CHR 0x5C then split_loop arg_list arg state_esc cs
         else if c = CHR 0x27 then split_loop arg_list arg state_singlequote cs
         else if c = CHR 0x22 then split_loop arg_list arg state_doublequote cs
         else if isspace c then
           (if state = state_whitespace then split_loop arg_list arg state cs
            else split_loop (arg_list @ [arg]) [] state_whitespace cs)
         else split_loop arg_list (arg @ [c]) state_basic cs)
      else if state = state_esc then split_loop arg_list (arg @ [c]) state_basic cs
      else if state = state_singlequote then
        (if c = CHR 0x27 then split_loop arg_list arg state_basic cs
         else split_loop arg_list (arg @ [c]) state cs)
      else
        (if c = CHR 0x22 then split_loop arg_list arg state_basic cs
         else split_loop arg_list (arg @ [c]) state cs))"

definition split_command_line :: "string \<Rightarrow> string list" where
  "split_command_line command_line = split_loop [] [] state_basic command_line"

subsection \<open>Effects, exceptions and the world\<close>

datatype log_level = INFO | ERROR

text \<open>
  \<open>Spawn argv\<close>: a process invoker (\<^verbatim>\<open>subprocess.check_output\<close> or
  \<^verbatim>\<open>pexpect.spawn\<close>) is called and hands \<open>argv\<close> to the operating system.
  \<open>SendLine s\<close>: \<open>s\<close> is written to the interactive input of the spawned child.
  \<open>SetEnv k v\<close>: \<^verbatim>\<open>os.environ[k] = v\<close>. \<open>Log l m\<close>: a call of \<^verbatim>\<open>logging.info\<close> or
  \<^verbatim>\<open>logging.error\<close> with the message \<open>m\<close>.
\<close>

datatype event =
    Spawn "string list"
  | SendLine string
  | SetEnv string string
  | Log log_level string

text \<open>
  The exceptions that can leave a constructor. \<open>CalledProcessError rc cmd\<close> is the one
  of \<^verbatim>\<open>subprocess\<close> for a non-zero exit status; \<open>OSError cmd\<close> is raised by
  \<^verbatim>\<open>subprocess\<close> when the program cannot be started; \<open>ExceptionPexpect\<close> is raised by
  \<^verbatim>\<open>pexpect.spawn\<close> when the command is not found; \<open>TIMEOUT\<close> by \<^verbatim>\<open>expect\<close> when
  the child does not finish in time; \<open>AttributeError\<close> by \<^verbatim>\<open>sendline(None)\<close>.
\<close>

datatype exn =
    Exception string
  | CalledProcessError int "string list"
  | OSError "string list"
  | ExceptionPexpect
  | TIMEOUT
  | AttributeError

datatype mutual_auth = REQUIRED | OPTIONAL | DISABLED

type_synonym session = nat

text \<open>
  The handler objects of the two libraries, with the arguments they are built from.
  \<open>HTTPKerberosAuth\<close> has \<^verbatim>\<open>hostname_override=None\<close> by default.
\<close>

datatype auth_handler =
    HTTPKerberosAuth mutual_auth "string option"
  | HttpNtlmAuth string string session

record world =
  os_name :: string
  getcwd :: string
  environ :: "string \<rightharpoonup> string"
  trace :: "event list"
  heap :: "auth_handler list"

text \<open>
  The answers of the host. \<open>subprocess_run env argv\<close> is the exit status of the
  non-interactive run of \<open>argv\<close> (\<open>None\<close>: the program could not be started).
  \<open>pexpect_spawn env argv\<close> is \<open>None\<close> when the command is not found, otherwise the
  child, as a function from the line sent to it to how it ends.
\<close>

datatype child_end = EOF_timeout | Closed "int option"

record tools =
  subprocess_run :: "(string \<rightharpoonup> string) \<Rightarrow> string list \<Rightarrow> int option"
  pexpect_spawn :: "(string \<rightharpoonup> string) \<Rightarrow> string list \<Rightarrow> (string \<Rightarrow> child_end) option"

definition emit :: "event \<Rightarrow> world \<Rightarrow> world" where
  "emit e w = w\<lparr>trace := trace w @ [e]\<rparr>"

text \<open>\<^verbatim>\<open>os.environ[k] = v\<close>\<close>

definition setenv :: "string \<Rightarrow> string \<Rightarrow> world \<Rightarrow> world" where
  "setenv k v w = emit (SetEnv k v) (w\<lparr>environ := (environ w)(k \<mapsto> v)\<rparr>)"

text \<open>
  \<^verbatim>\<open>subprocess.check_output(argv)\<close>: the output is discarded by every caller, so the
  result is only the exception, if any.
\<close>

definition check_output :: "tools \<Rightarrow> world \<Rightarrow> string list \<Rightarrow> world \<times> exn option" where
  "check_output host w argv =
     (let w1 = emit (Spawn argv) w in
      case subprocess_run host (environ w1) argv of
        None \<Rightarrow> (w1, Some (OSError argv))
      | Some rc \<Rightarrow> if rc \<noteq> 0 then (w1, Some (CalledProcessError rc argv)) else (w1, None))"

subsection \<open>The authenticators\<close>

datatype authenticator =
    KerberosAuthenticator (kerb_hostname: "string option")
  | NtlmAuthenticator (username: string) (password: string) (domain: string)
  | KeytabAuthenticator (username: string) (keytab: string) (domain: string)

text \<open>
  The body of the \<^verbatim>\<open>try\<close> block of \<^verbatim>\<open>__generate_kerberos_ticket_for_user\<close>: spawn
  \<^verbatim>\<open>kinit\<close> on the formatted command line, send the password, wait for the end of the
  child, close it, and raise unless \<^verbatim>\<open>exitstatus\<close> is 0 (it is \<^verbatim>\<open>None\<close> for a child
  ended by a signal).
\<close>

definition kinit_for_user :: "tools \<Rightarrow> world \<Rightarrow> string \<Rightarrow> string option \<Rightarrow> string \<Rightarrow> world \<times> exn option" where
  "kinit_for_user host w princ password' command =
     (let argv = split_command_line command;
          w1 = emit (Spawn argv) w in
      case pexpect_spawn host (environ w1) argv of
        None \<Rightarrow> (w1, Some ExceptionPexpect)
      | Some kinit \<Rightarrow>
          (case password' of
             None \<Rightarrow> (w1, Some AttributeError)
           | Some pw \<Rightarrow>
               (let w2 = emit (SendLine pw) w1 in
                case kinit pw of
                  EOF_timeout \<Rightarrow> (w2, Some TIMEOUT)
                | Closed exitstatus \<Rightarrow>
                    if exitstatus \<noteq> Some 0
                    then (w2, Some (Exception
                           (''failed to generate a kerberos ticket for principal '' @ princ)))
                    else (w2, None))))"

definition generate_kerberos_ticket_for_user ::
    "tools \<Rightarrow> world \<Rightarrow> string \<Rightarrow> string option \<Rightarrow> string option \<Rightarrow> world \<times> exn option" where
  "generate_kerberos_ticket_for_user host w username' password' domain' =
     (let princ = username' @ ''@'' @ py_format domain' in
      case kinit_for_user host w princ password' (''kinit '' @ princ) of
        (w', None) \<Rightarrow> (w', None)
      | (w', Some ex) \<Rightarrow>
          (emit (Log ERROR ''failed to generate a kerberos ticket for principal {}'') w', Some ex))"

definition generate_kerberos_ticket :: "tools \<Rightarrow> world \<Rightarrow> world \<times> exn option" where
  "generate_kerberos_ticket host w =
     (case check_output host w [''klist'', ''-s''] of
        (w1, None) \<Rightarrow> (w1, None)
      | (w1, Some (CalledProcessError rc cmd)) \<Rightarrow>
          (let w2 = emit (Log INFO ''no kerberos ticket found. running kinit'') w1 in
           case check_output host w2 [''kinit''] of
             (w3, None) \<Rightarrow> (w3, None)
           | (w3, Some (CalledProcessError rc' cmd')) \<Rightarrow>
               (emit (Log ERROR ''failed to generate a kerberos ticket'') w3,
                Some (CalledProcessError rc' cmd'))
           | (w3, Some err) \<Rightarrow> (w3, Some err))
      | (w1, Some err) \<Rightarrow> (w1, Some err))"

text \<open>\<^verbatim>\<open>KerberosAuthenticator.__init__(kerb_hostname, username, password, domain)\<close>\<close>

definition KerberosAuthenticator_init ::
    "tools \<Rightarrow> world \<Rightarrow> string option \<Rightarrow> string option \<Rightarrow> string option \<Rightarrow> string option
       \<Rightarrow> world \<times> (exn + authenticator)" where
  "KerberosAuthenticator_init host w kerb_hostname' username' password' domain' =
     (let self = KerberosAuthenticator (if truthy kerb_hostname' then kerb_hostname' else None);
          (w', raised) =
            (case username' of
               None \<Rightarrow> generate_kerberos_ticket host w
             | Some u \<Rightarrow>
                 if truthy username'
                 then generate_kerberos_ticket_for_user host w u password' domain'
                 else generate_kerberos_ticket host w)
      in case raised of None \<Rightarrow> (w', Inr self) | Some ex \<Rightarrow> (w', Inl ex))"

text \<open>\<^verbatim>\<open>NtlmAuthenticator.__init__(username, password, domain)\<close>\<close>

definition NtlmAuthenticator_init ::
    "tools \<Rightarrow> world \<Rightarrow> string \<Rightarrow> string \<Rightarrow> string \<Rightarrow> world \<times> (exn + authenticator)" where
  "NtlmAuthenticator_init host w username' password' domain' =
     (w, Inr (NtlmAuthenticator username' password' domain'))"

text \<open>\<^verbatim>\<open>KeytabAuthenticator.__init__(username, keytab, domain)\<close>\<close>

definition KeytabAuthenticator_init ::
    "tools \<Rightarrow> world \<Rightarrow> string \<Rightarrow> string \<Rightarrow> string \<Rightarrow> world \<times> (exn + authenticator)" where
  "KeytabAuthenticator_init host w username' keytab' domain' =
     (let self = KeytabAuthenticator username' keytab' domain' in
      if os_name w = ''nt'' then (w, Inl (Exception ''keytab is not supported on Windows!''))
      else
        (let credentials_cache = os_path_join (getcwd w) ''credentials_cache'';
             w1 = setenv ''KRB5CCNAME'' credentials_cache w in
         case check_output host w1
                [''kinit'', ''-c'', credentials_cache, ''-kt'', keytab self,
                 username self @ ''@'' @ domain self] of
           (w2, None) \<Rightarrow> (w2, Inr self)
         | (w2, Some (CalledProcessError rc cmd)) \<Rightarrow>
             (w2, Inl (Exception ''could not generate a valid ticket for the given keytab''))
         | (w2, Some err) \<Rightarrow> (w2, Inl err)))"

text \<open>
  \<^verbatim>\<open>get_auth_handler(self, session)\<close> of the three classes. Each call evaluates a
  constructor call of the library, so it allocates a new object: the handler is put at
  a fresh address of the heap and the address is returned.
\<close>

definition new_handler :: "authenticator \<Rightarrow> session \<Rightarrow> auth_handler" where
  "new_handler self session' =
     (case self of
        KerberosAuthenticator h \<Rightarrow> HTTPKerberosAuth OPTIONAL h
      | NtlmAuthenticator u p d \<Rightarrow> HttpNtlmAuth (d @ [CHR 0x5C] @ u) p session'
      | KeytabAuthenticator u k d \<Rightarrow> HTTPKerberosAuth OPTIONAL None)"

definition get_auth_handler :: "authenticator \<Rightarrow> session \<Rightarrow> world \<Rightarrow> world \<times> nat" where
  "get_auth_handler self session' w =
     (w\<lparr>heap := heap w @ [new_handler self session']\<rparr>, length (heap w))"

definition get_auth_type :: "authenticator \<Rightarrow> string" where
  "get_auth_type self =
     (case self of
        KerberosAuthenticator h \<Rightarrow> ''kerberos''
      | NtlmAuthenticator u p d \<Rightarrow> ''ntlm''
      | KeytabAuthenticator u k d \<Rightarrow> ''keytab'')"

subsection \<open>Reading a trace\<close>

text \<open>The argument lists of the processes started, in order.\<close>

fun spawned :: "event list \<Rightarrow> string list list" where
  "spawned [] = []"
| "spawned (Spawn argv # es) = argv # spawned es"
| "spawned (e # es) = spawned es"

text \<open>The messages logged at a level, in order.\<close>

fun logged :: "log_level \<Rightarrow> event list \<Rightarrow> string list" where
  "logged l [] = []"
| "logged l (Log l' m # es) = (if l' = l then m # logged l es else logged l es)"
| "logged l (e # es) = logged l es"

text \<open>
  A string with no character that \<open>split_command_line\<close> treats specially: no
  whitespace, no backslash, no single or double quote.
\<close>

definition plain :: "string \<Rightarrow> bool" where
  "plain s = list_all (\<lambda>c. \<not> isspace c \<and> c \<noteq> CHR 0x5C \<and> c \<noteq> CHR 0x27 \<and> c \<noteq> CHR 0x22) s"

subsection \<open>Example hosts\<close>

text \<open>
  A POSIX host and a Windows host with nothing in the environment, and three
  behaviours of the tools: every tool succeeds; every tool exits with status 1; the
  ticket check fails and every other tool succeeds.
\<close>

definition posix_world :: world where
  "posix_world = \<lparr>os_name = ''posix'', getcwd = ''/home/alice'', environ = Map.empty,
                   trace = [], heap = []\<rparr>"

definition nt_world :: world where
  "nt_world = \<lparr>os_name = ''nt'', getcwd = ''C:/Users/alice'', environ = Map.empty,
                trace = [], heap = []\<rparr>"

definition tools_ok :: tools where
  "tools_ok = \<lparr>subprocess_run = (\<lambda>env argv. Some 0),
                pexpect_spawn = (\<lambda>env argv. Some (\<lambda>line. Closed (Some 0)))\<rparr>"

definition tools_fail :: tools where
  "tools_fail = \<lparr>subprocess_run = (\<lambda>env argv. Some 1),
                  pexpect_spawn = (\<lambda>env argv. Some (\<lambda>line. Closed (Some 1)))\<rparr>"

definition tools_no_ticket :: tools where
  "tools_no_ticket = \<lparr>subprocess_run = (\<lambda>env argv. if argv = [''klist'', ''-s''] then Some 1 else Some 0),
                       pexpect_spawn = (\<lambda>env argv. Some (\<lambda>line. Closed (Some 0)))\<rparr>"

section \<open>Properties\<close>

subsection \<open>Auxiliary facts\<close>

lemma environ_emit: "environ (emit e w) = environ w"
  and trace_emit: "trace (emit e w) = trace w @ [e]"
  and heap_emit: "heap (emit e w) = heap w"
  and os_name_emit: "os_name (emit e w) = os_name w"
  and getcwd_emit: "getcwd (emit e w) = getcwd w"
  by (simp_all add: emit_def)

lemma split_loop_plain:
  "plain s \<Longrightarrow> st = state_basic \<or> st = state_whitespace \<Longrightarrow>
   split_loop al a st s =
     (if s = [] then (if a \<noteq> [] then al @ [a] else al) else al @ [a @ s])"
proof (induction s arbitrary: a st)
  case Nil
  then show ?case by simp
next
  case (Cons c cs)
  from Cons.prems have c: "\<not> isspace c" "c \<noteq> CHR 0x5C" "c \<noteq> CHR 0x27" "c \<noteq> CHR 0x22"
    and cs: "plain cs"
    by (simp_all add: plain_def)
  have "split_loop al a st (c # cs) = split_loop al (a @ [c]) state_basic cs"
    using Cons.prems(2) c by auto
  also have "\<dots> = al @ [a @ c # cs]"
    using Cons.IH [OF cs, of state_basic "a @ [c]"] by simp
  finally show ?case by simp
qed

lemma split_kinit_plain:
  assumes "plain s" "s \<noteq> []"
  shows "split_command_line (''kinit '' @ s) = [''kinit'', s]"
  using split_loop_plain [OF assms(1), of state_whitespace "[''kinit'']" "[]"] assms(2)
  by (simp add: split_command_line_def isspace_def)

lemma plain_principal: "plain u \<Longrightarrow> plain d \<Longrightarrow> plain (u @ ''@'' @ d)"
  by (simp add: plain_def isspace_def)

subsection \<open>Password Kerberos: the command line of the ticket-init tool\<close>

text \<open>
  Claim C1, as amended. \<^verbatim>\<open>KerberosAuthenticator(username=u, password=p, domain=d)\<close>
  with a non-empty username, where neither the username nor the formatted domain has a
  whitespace, backslash or quote character: the effects of the construction are exactly
  one start of \<^verbatim>\<open>kinit\<close> with the single argument \<^verbatim>\<open>u@d\<close>, then (if the tool was
  found) the password sent as one line to the child's interactive input, then one error
  log entry if the tool was not found, did not finish, or did not exit with status 0.
  The argument list is computed from the username and the domain alone; the password
  occurs in the effects only as the line sent.
\<close>

theorem C1_single_principal_argument:
  assumes "u \<noteq> []" and "plain u" and "plain (py_format d)"
  shows "trace (fst (KerberosAuthenticator_init host w h (Some u) (Some p) d)) =
           trace w @ Spawn [''kinit'', u @ ''@'' @ py_format d] #
             (case pexpect_spawn host (environ w) [''kinit'', u @ ''@'' @ py_format d] of
                None \<Rightarrow> [Log ERROR ''failed to generate a kerberos ticket for principal {}'']
              | Some kinit \<Rightarrow>
                  SendLine p #
                    (if kinit p = Closed (Some 0) then []
                     else [Log ERROR ''failed to generate a kerberos ticket for principal {}'']))"
proof -
  have "split_command_line (''kinit '' @ u @ ''@'' @ py_format d) = [''kinit'', u @ ''@'' @ py_format d]"
    using assms by (intro split_kinit_plain plain_principal) simp_all
  then show ?thesis
    using assms(1)
    by (simp add: KerberosAuthenticator_init_def generate_kerberos_ticket_for_user_def
        kinit_for_user_def Let_def environ_emit trace_emit
        split: option.splits child_end.splits prod.splits)
qed

text \<open>
  The theorem at \<^verbatim>\<open>alice\<close>, \<^verbatim>\<open>secret\<close>, \<^verbatim>\<open>EXAMPLE.COM\<close> on a host whose tools succeed.
\<close>

theorem C1_single_principal_argument_witness:
  "plain ''alice'' \<and> plain ''EXAMPLE.COM'' \<and>
   trace (fst (KerberosAuthenticator_init tools_ok posix_world None (Some ''alice'') (Some ''secret'') (Some ''EXAMPLE.COM''))) =
     [Spawn [''kinit'', ''alice@EXAMPLE.COM''], SendLine ''secret'']"
  using C1_single_principal_argument [of "''alice''" "Some ''EXAMPLE.COM''" tools_ok posix_world None "''secret''"]
  by (simp add: plain_def isspace_def tools_ok_def posix_world_def)

text \<open>
  Claim C1 as stated fails for the username \<^verbatim>\<open>alice smith\<close> with the password
  \<^verbatim>\<open>alice\<close>: the command line \<^verbatim>\<open>kinit alice smith@EXAMPLE.COM\<close> is split at the blank,
  so \<^verbatim>\<open>kinit\<close> is started with two arguments, neither of them the principal, and the
  first of them contains the password.
\<close>

theorem C1_split_username_counterexample:
  "spawned (trace (fst (KerberosAuthenticator_init tools_ok posix_world None
      (Some ''alice smith'') (Some ''alice'') (Some ''EXAMPLE.COM'')))) =
     [[''kinit'', ''alice'', ''smith@EXAMPLE.COM'']] \<and>
   [''kinit'', ''alice'', ''smith@EXAMPLE.COM''] \<noteq> [''kinit'', ''alice smith@EXAMPLE.COM''] \<and>
   contains ''alice'' ''alice''"
  by (simp add: KerberosAuthenticator_init_def generate_kerberos_ticket_for_user_def
        kinit_for_user_def Let_def environ_emit trace_emit split_command_line_def isspace_def
        tools_ok_def posix_world_def)

subsection \<open>Ambient Kerberos: check first, initialise only if missing\<close>

text \<open>
  Claim C2. \<^verbatim>\<open>KerberosAuthenticator\<close> constructed without a (true) username: if
  \<^verbatim>\<open>klist -s\<close> exits with status zero, the only effect of the construction is that one
  process start; no \<^verbatim>\<open>kinit\<close> is started, nothing is logged, and the construction
  returns the authenticator without raising.
\<close>

theorem C2_valid_ticket_reused:
  assumes "\<not> truthy u"
    and "subprocess_run host (environ w) [''klist'', ''-s''] = Some 0"
  shows "KerberosAuthenticator_init host w h u p d =
           (emit (Spawn [''klist'', ''-s'']) w,
            Inr (KerberosAuthenticator (if truthy h then h else None)))"
  using assms
  by (cases u)
     (simp_all add: KerberosAuthenticator_init_def generate_kerberos_ticket_def
        check_output_def Let_def environ_emit)

text \<open>
  The theorem with no arguments at all, on a host whose tools succeed.
\<close>

theorem C2_valid_ticket_reused_witness:
  "\<not> truthy None \<and>
   spawned (trace (fst (KerberosAuthenticator_init tools_ok posix_world None None None None))) =
     [[''klist'', ''-s'']] \<and>
   snd (KerberosAuthenticator_init tools_ok posix_world None None None None) =
     Inr (KerberosAuthenticator None)"
  using C2_valid_ticket_reused [of None tools_ok posix_world None None None]
  by (simp add: tools_ok_def posix_world_def trace_emit)

text \<open>
  Claim C3. \<^verbatim>\<open>KerberosAuthenticator\<close> constructed without a (true) username: if
  \<^verbatim>\<open>klist -s\<close> exits non-zero, the failed check is logged at level INFO only and
  \<^verbatim>\<open>kinit\<close> is started with no arguments. If \<^verbatim>\<open>kinit\<close> exits non-zero too, one error
  is logged after it and the \<^verbatim>\<open>CalledProcessError\<close> of \<^verbatim>\<open>kinit\<close> is raised to the
  caller; if \<^verbatim>\<open>kinit\<close> exits with zero, no error is logged and the construction
  succeeds, so the failed check alone is never reported as an error.
\<close>

theorem C3_fallback_init:
  assumes "\<not> truthy u"
    and "subprocess_run host (environ w) [''klist'', ''-s''] = Some rc" and "rc \<noteq> 0"
  shows "KerberosAuthenticator_init host w h u p d =
           (let w3 = emit (Spawn [''kinit''])
                       (emit (Log INFO ''no kerberos ticket found. running kinit'')
                          (emit (Spawn [''klist'', ''-s'']) w))
            in case subprocess_run host (environ w) [''kinit''] of
                 None \<Rightarrow> (w3, Inl (OSError [''kinit'']))
               | Some rc' \<Rightarrow>
                   if rc' \<noteq> 0
                   then (emit (Log ERROR ''failed to generate a kerberos ticket'') w3,
                         Inl (CalledProcessError rc' [''kinit'']))
                   else (w3, Inr (KerberosAuthenticator (if truthy h then h else None))))"
  using assms
  by (cases u)
     (simp_all add: KerberosAuthenticator_init_def generate_kerberos_ticket_def
        check_output_def Let_def environ_emit split: option.splits)

text \<open>
  The theorem on a host where both \<^verbatim>\<open>klist -s\<close> and \<^verbatim>\<open>kinit\<close> exit with status 1.
\<close>

theorem C3_fallback_init_witness:
  "\<not> truthy None \<and> (1::int) \<noteq> 0 \<and>
   trace (fst (KerberosAuthenticator_init tools_fail posix_world None None None None)) =
     [Spawn [''klist'', ''-s''], Log INFO ''no kerberos ticket found. running kinit'',
      Spawn [''kinit''], Log ERROR ''failed to generate a kerberos ticket''] \<and>
   snd (KerberosAuthenticator_init tools_fail posix_world None None None None) =
     Inl (CalledProcessError 1 [''kinit''])"
  using C3_fallback_init [of None tools_fail posix_world 1 None None None]
  by (simp add: tools_fail_def posix_world_def trace_emit Let_def)

subsection \<open>Password Kerberos: a failing ticket-init tool\<close>

text \<open>
  Claim C4 says that the error logged for a failing \<^verbatim>\<open>kinit\<close> describes the
  principal. The code logs the format string itself, without applying \<^verbatim>\<open>format\<close>:
  for \<^verbatim>\<open>alice@EXAMPLE.COM\<close> and a \<^verbatim>\<open>kinit\<close> that exits with status 1 the message logged
  ends in the placeholder \<^verbatim>\<open>{}\<close> and does not contain the principal, while the
  exception raised to the caller does name it.
\<close>

theorem C4_log_omits_principal:
  "logged ERROR (trace (fst (KerberosAuthenticator_init tools_fail posix_world None
      (Some ''alice'') (Some ''secret'') (Some ''EXAMPLE.COM'')))) =
     [''failed to generate a kerberos ticket for principal {}''] \<and>
   \<not> contains ''alice@EXAMPLE.COM'' ''failed to generate a kerberos ticket for principal {}'' \<and>
   snd (KerberosAuthenticator_init tools_fail posix_world None
      (Some ''alice'') (Some ''secret'') (Some ''EXAMPLE.COM'')) =
     Inl (Exception ''failed to generate a kerberos ticket for principal alice@EXAMPLE.COM'')"
  by (simp add: KerberosAuthenticator_init_def generate_kerberos_ticket_for_user_def
        kinit_for_user_def Let_def environ_emit trace_emit split_command_line_def isspace_def
        tools_fail_def posix_world_def)

subsection \<open>Keytab: platform check, credential cache and command\<close>

text \<open>
  Claim C5. \<^verbatim>\<open>KeytabAuthenticator(u, k, d)\<close> on a platform other than \<^verbatim>\<open>nt\<close>: the
  cache path is \<^verbatim>\<open>credentials_cache\<close> joined to the current working directory; the
  environment after the construction maps \<^verbatim>\<open>KRB5CCNAME\<close> to that path; and the effects
  are exactly that assignment followed by one start of \<^verbatim>\<open>kinit\<close> with \<^verbatim>\<open>-c\<close> and the
  cache path, \<^verbatim>\<open>-kt\<close> and the keytab path, and the principal \<^verbatim>\<open>u@d\<close>.
\<close>

theorem C5_keytab_cache_and_command:
  assumes "os_name w \<noteq> ''nt''"
  shows "environ (fst (KeytabAuthenticator_init host w u k d)) =
           (environ w)(''KRB5CCNAME'' \<mapsto> os_path_join (getcwd w) ''credentials_cache'') \<and>
         trace (fst (KeytabAuthenticator_init host w u k d)) =
           trace w @
             [SetEnv ''KRB5CCNAME'' (os_path_join (getcwd w) ''credentials_cache''),
              Spawn [''kinit'', ''-c'', os_path_join (getcwd w) ''credentials_cache'',
                     ''-kt'', k, u @ ''@'' @ d]]"
  using assms
  by (simp add: KeytabAuthenticator_init_def check_output_def setenv_def Let_def
        environ_emit trace_emit emit_def split: option.splits exn.splits)

text \<open>
  The theorem for \<^verbatim>\<open>alice\<close> in \<^verbatim>\<open>/home/alice\<close> on the POSIX host.
\<close>

theorem C5_keytab_cache_and_command_witness:
  "os_name posix_world \<noteq> ''nt'' \<and>
   environ (fst (KeytabAuthenticator_init tools_ok posix_world ''alice'' ''/etc/alice.keytab'' ''EXAMPLE.COM''))
     ''KRB5CCNAME'' = Some ''/home/alice/credentials_cache'' \<and>
   trace (fst (KeytabAuthenticator_init tools_ok posix_world ''alice'' ''/etc/alice.keytab'' ''EXAMPLE.COM'')) =
     [SetEnv ''KRB5CCNAME'' ''/home/alice/credentials_cache'',
      Spawn [''kinit'', ''-c'', ''/home/alice/credentials_cache'', ''-kt'', ''/etc/alice.keytab'',
             ''alice@EXAMPLE.COM'']]"
  using C5_keytab_cache_and_command [of posix_world tools_ok "''alice''" "''/etc/alice.keytab''" "''EXAMPLE.COM''"]
  by (simp add: posix_world_def os_path_join_def)

text \<open>
  Claim C6. \<^verbatim>\<open>KeytabAuthenticator(u, k, d)\<close> on \<^verbatim>\<open>nt\<close> raises the exception
  \<^verbatim>\<open>keytab is not supported on Windows!\<close> and leaves the world as it was: no process
  is started, the environment is untouched, nothing is logged.
\<close>

theorem C6_keytab_unsupported_platform:
  assumes "os_name w = ''nt''"
  shows "KeytabAuthenticator_init host w u k d =
           (w, Inl (Exception ''keytab is not supported on Windows!''))"
  using assms by (simp add: KeytabAuthenticator_init_def)

text \<open>
  The theorem on the Windows host.
\<close>

theorem C6_keytab_unsupported_platform_witness:
  "os_name nt_world = ''nt'' \<and>
   KeytabAuthenticator_init tools_ok nt_world ''alice'' ''/etc/alice.keytab'' ''EXAMPLE.COM'' =
     (nt_world, Inl (Exception ''keytab is not supported on Windows!'')) \<and>
   trace nt_world = []"
  using C6_keytab_unsupported_platform [of nt_world tools_ok "''alice''" "''/etc/alice.keytab''" "''EXAMPLE.COM''"]
  by (simp add: nt_world_def)

subsection \<open>Outcomes of construction\<close>

text \<open>
  Claim C7, as amended. NTLM construction always succeeds and changes nothing.
  Password Kerberos construction (non-empty username) leaves the environment and the
  heap as they were, and returns an authenticator exactly when \<^verbatim>\<open>kinit\<close> was found,
  the password was a string, and the child exited with status 0. Keytab construction
  returns an authenticator exactly when the platform is not \<^verbatim>\<open>nt\<close> and \<^verbatim>\<open>kinit\<close>
  exited with status 0; it leaves the heap as it was; the environment is unchanged on
  \<^verbatim>\<open>nt\<close>, and on every other platform \<^verbatim>\<open>KRB5CCNAME\<close> is set to the cache path, whether
  or not the construction then raises.
\<close>

theorem C7_construction_outcomes:
  assumes "u \<noteq> []"
  shows "NtlmAuthenticator_init host w u pw d = (w, Inr (NtlmAuthenticator u pw d)) \<and>
         environ (fst (KerberosAuthenticator_init host w h (Some u) p dm)) = environ w \<and>
         heap (fst (KerberosAuthenticator_init host w h (Some u) p dm)) = heap w \<and>
         (\<not> isl (snd (KerberosAuthenticator_init host w h (Some u) p dm)) \<longleftrightarrow>
            (\<exists>kinit line. p = Some line \<and>
               pexpect_spawn host (environ w)
                 (split_command_line (''kinit '' @ u @ ''@'' @ py_format dm)) = Some kinit \<and>
               kinit line = Closed (Some 0))) \<and>
         environ (fst (KeytabAuthenticator_init host w u k d)) =
           (if os_name w = ''nt'' then environ w
            else (environ w)(''KRB5CCNAME'' \<mapsto> os_path_join (getcwd w) ''credentials_cache'')) \<and>
         heap (fst (KeytabAuthenticator_init host w u k d)) = heap w \<and>
         (\<not> isl (snd (KeytabAuthenticator_init host w u k d)) \<longleftrightarrow>
            os_name w \<noteq> ''nt'' \<and>
            subprocess_run host
              ((environ w)(''KRB5CCNAME'' \<mapsto> os_path_join (getcwd w) ''credentials_cache''))
              [''kinit'', ''-c'', os_path_join (getcwd w) ''credentials_cache'', ''-kt'', k,
               u @ ''@'' @ d] = Some 0)"
proof -
  have ntlm: "NtlmAuthenticator_init host w u pw d = (w, Inr (NtlmAuthenticator u pw d))"
    by (simp add: NtlmAuthenticator_init_def)
  have kerb_state:
    "environ (fst (KerberosAuthenticator_init host w h (Some u) p dm)) = environ w \<and>
     heap (fst (KerberosAuthenticator_init host w h (Some u) p dm)) = heap w"
    using assms
    by (simp add: KerberosAuthenticator_init_def generate_kerberos_ticket_for_user_def
        kinit_for_user_def Let_def environ_emit heap_emit
        split: option.splits child_end.splits prod.splits)
  have kerb_ok:
    "\<not> isl (snd (KerberosAuthenticator_init host w h (Some u) p dm)) \<longleftrightarrow>
       (\<exists>kinit line. p = Some line \<and>
          pexpect_spawn host (environ w)
            (split_command_line (''kinit '' @ u @ ''@'' @ py_format dm)) = Some kinit \<and>
          kinit line = Closed (Some 0))"
    using assms
    by (auto simp add: KerberosAuthenticator_init_def generate_kerberos_ticket_for_user_def
        kinit_for_user_def Let_def environ_emit
        split: option.splits child_end.splits prod.splits)
  have keytab_state:
    "environ (fst (KeytabAuthenticator_init host w u k d)) =
       (if os_name w = ''nt'' then environ w
        else (environ w)(''KRB5CCNAME'' \<mapsto> os_path_join (getcwd w) ''credentials_cache'')) \<and>
     heap (fst (KeytabAuthenticator_init host w u k d)) = heap w"
    by (simp add: KeytabAuthenticator_init_def check_output_def setenv_def Let_def
        environ_emit heap_emit emit_def split: option.splits exn.splits)
  have keytab_ok:
    "\<not> isl (snd (KeytabAuthenticator_init host w u k d)) \<longleftrightarrow>
       os_name w \<noteq> ''nt'' \<and>
       subprocess_run host
         ((environ w)(''KRB5CCNAME'' \<mapsto> os_path_join (getcwd w) ''credentials_cache''))
         [''kinit'', ''-c'', os_path_join (getcwd w) ''credentials_cache'', ''-kt'', k,
          u @ ''@'' @ d] = Some 0"
    by (auto simp add: KeytabAuthenticator_init_def check_output_def setenv_def Let_def
        environ_emit emit_def split: option.splits exn.splits)
  from ntlm kerb_state kerb_ok keytab_state keytab_ok show ?thesis by blast
qed

text \<open>
  The theorem for \<^verbatim>\<open>alice\<close> on the POSIX host, once with failing and once with
  succeeding tools.
\<close>

theorem C7_construction_outcomes_witness:
  "''alice'' \<noteq> [] \<and>
   isl (snd (KerberosAuthenticator_init tools_fail posix_world None (Some ''alice'') (Some ''secret'') (Some ''EXAMPLE.COM''))) \<and>
   environ (fst (KerberosAuthenticator_init tools_fail posix_world None (Some ''alice'') (Some ''secret'') (Some ''EXAMPLE.COM''))) ''KRB5CCNAME'' = None \<and>
   isl (snd (KeytabAuthenticator_init tools_fail posix_world ''alice'' ''/etc/alice.keytab'' ''EXAMPLE.COM'')) \<and>
   \<not> isl (snd (KeytabAuthenticator_init tools_ok posix_world ''alice'' ''/etc/alice.keytab'' ''EXAMPLE.COM''))"
  using C7_construction_outcomes [of "''alice''" tools_fail posix_world "''secret''" "''EXAMPLE.COM''"
          None "Some ''secret''" "Some ''EXAMPLE.COM''" "''/etc/alice.keytab''"]
        C7_construction_outcomes [of "''alice''" tools_ok posix_world "''secret''" "''EXAMPLE.COM''"
          None "Some ''secret''" "Some ''EXAMPLE.COM''" "''/etc/alice.keytab''"]
  by (simp add: tools_fail_def tools_ok_def posix_world_def split_command_line_def isspace_def)

text \<open>
  Claim C7 as stated fails for a Keytab construction whose \<^verbatim>\<open>kinit\<close> exits with
  status 1: the construction raises, and \<^verbatim>\<open>KRB5CCNAME\<close>, unset before, stays set to
  the cache path after the failure.
\<close>

theorem C7_keytab_environment_counterexample:
  "snd (KeytabAuthenticator_init tools_fail posix_world ''alice'' ''/etc/alice.keytab'' ''EXAMPLE.COM'') =
     Inl (Exception ''could not generate a valid ticket for the given keytab'') \<and>
   environ posix_world ''KRB5CCNAME'' = None \<and>
   environ (fst (KeytabAuthenticator_init tools_fail posix_world ''alice'' ''/etc/alice.keytab'' ''EXAMPLE.COM''))
     ''KRB5CCNAME'' = Some ''/home/alice/credentials_cache''"
  by (simp add: KeytabAuthenticator_init_def check_output_def setenv_def Let_def
        environ_emit emit_def tools_fail_def posix_world_def os_path_join_def)

subsection \<open>NTLM\<close>

text \<open>
  Claim C8. \<^verbatim>\<open>NtlmAuthenticator(u, p, d)\<close> has no effect and stores the three
  inputs; \<^verbatim>\<open>get_auth_handler(session)\<close> builds \<^verbatim>\<open>HttpNtlmAuth\<close> from the domain, a
  backslash and the username, the stored password, and the session given. For
  \<^verbatim>\<open>bob\<close> in \<^verbatim>\<open>CORP\<close> the identity string is the eight characters \<^verbatim>\<open>CORP\bob\<close>.
\<close>

theorem C8_ntlm_identity:
  "NtlmAuthenticator_init host w u p d = (w, Inr (NtlmAuthenticator u p d)) \<and>
   get_auth_handler (NtlmAuthenticator u p d) s w' =
     (w'\<lparr>heap := heap w' @ [HttpNtlmAuth (d @ [CHR 0x5C] @ u) p s]\<rparr>, length (heap w')) \<and>
   new_handler (NtlmAuthenticator ''bob'' p ''CORP'') s =
     HttpNtlmAuth [CHR ''C'', CHR ''O'', CHR ''R'', CHR ''P'', CHR 0x5C,
                   CHR ''b'', CHR ''o'', CHR ''b''] p s"
  by (simp add: NtlmAuthenticator_init_def get_auth_handler_def new_handler_def)

subsection \<open>Handlers\<close>

text \<open>
  Claim C9. Two successive calls of \<^verbatim>\<open>get_auth_handler\<close> on any authenticator
  return two different objects, both present in the heap afterwards with the contents
  the authenticator determines, the first one untouched by the second call; objects
  allocated before are untouched; no process is started and nothing is logged (the
  trace is unchanged), and the environment is unchanged. The authenticator is a value
  that \<^verbatim>\<open>get_auth_handler\<close> only reads.
\<close>

theorem C9_two_handlers:
  assumes "get_auth_handler self s w = (w1, h1)"
    and "get_auth_handler self s' w1 = (w2, h2)"
  shows "h1 \<noteq> h2 \<and> h1 < length (heap w2) \<and> h2 < length (heap w2) \<and>
         heap w2 ! h1 = new_handler self s \<and> heap w2 ! h2 = new_handler self s' \<and>
         take (length (heap w)) (heap w2) = heap w \<and>
         trace w2 = trace w \<and> environ w2 = environ w \<and>
         os_name w2 = os_name w \<and> getcwd w2 = getcwd w"
proof -
  from assms(1) have w1: "w1 = w\<lparr>heap := heap w @ [new_handler self s]\<rparr>"
    and h1: "h1 = length (heap w)"
    by (simp_all add: get_auth_handler_def)
  from assms(2) have w2: "w2 = w1\<lparr>heap := heap w1 @ [new_handler self s']\<rparr>"
    and h2: "h2 = length (heap w1)"
    by (simp_all add: get_auth_handler_def)
  have heap2: "heap w2 = heap w @ [new_handler self s, new_handler self s']"
    by (simp add: w1 w2)
  have "h2 = Suc h1" by (simp add: h1 h2 w1)
  moreover have "heap w2 ! h1 = new_handler self s"
    by (simp add: heap2 h1 nth_append)
  moreover have "heap w2 ! Suc h1 = new_handler self s'"
    by (simp add: heap2 h1 nth_append)
  moreover have "length (heap w2) = Suc (Suc h1)" by (simp add: heap2 h1)
  moreover have "take (length (heap w)) (heap w2) = heap w" by (simp add: heap2)
  moreover have "trace w2 = trace w" "environ w2 = environ w"
    "os_name w2 = os_name w" "getcwd w2 = getcwd w"
    by (simp_all add: w1 w2)
  ultimately show ?thesis by simp
qed

text \<open>
  The theorem for two calls on an ambient Kerberos authenticator.
\<close>

theorem C9_two_handlers_witness:
  "get_auth_handler (KerberosAuthenticator None) 7 posix_world =
     (posix_world\<lparr>heap := [HTTPKerberosAuth OPTIONAL None]\<rparr>, 0) \<and>
   get_auth_handler (KerberosAuthenticator None) 7 (posix_world\<lparr>heap := [HTTPKerberosAuth OPTIONAL None]\<rparr>) =
     (posix_world\<lparr>heap := [HTTPKerberosAuth OPTIONAL None, HTTPKerberosAuth OPTIONAL None]\<rparr>, 1) \<and>
   (0::nat) \<noteq> 1 \<and>
   trace (posix_world\<lparr>heap := [HTTPKerberosAuth OPTIONAL None, HTTPKerberosAuth OPTIONAL None]\<rparr>) = trace posix_world"
proof -
  have a: "get_auth_handler (KerberosAuthenticator None) 7 posix_world =
     (posix_world\<lparr>heap := [HTTPKerberosAuth OPTIONAL None]\<rparr>, 0)"
    by (simp add: get_auth_handler_def new_handler_def posix_world_def)
  have b: "get_auth_handler (KerberosAuthenticator None) 7 (posix_world\<lparr>heap := [HTTPKerberosAuth OPTIONAL None]\<rparr>) =
     (posix_world\<lparr>heap := [HTTPKerberosAuth OPTIONAL None, HTTPKerberosAuth OPTIONAL None]\<rparr>, 1)"
    by (simp add: get_auth_handler_def new_handler_def posix_world_def)
  from C9_two_handlers [OF a b] a b show ?thesis by simp
qed

subsection \<open>Kerberos: false arguments\<close>

text \<open>
  Claim C10. \<^verbatim>\<open>KerberosAuthenticator\<close> with the empty string as username runs the
  ambient path (ticket check, then fallback), with the same result as a construction
  with no username, password and domain at all; an empty hostname override gives the
  same result as none, and the authenticator returned stores \<^verbatim>\<open>None\<close> for it.
\<close>

theorem C10_empty_username_is_ambient:
  "KerberosAuthenticator_init host w h (Some []) p d =
     (case generate_kerberos_ticket host w of
        (w', None) \<Rightarrow> (w', Inr (KerberosAuthenticator (if truthy h then h else None)))
      | (w', Some ex) \<Rightarrow> (w', Inl ex)) \<and>
   KerberosAuthenticator_init host w h (Some []) p d =
     KerberosAuthenticator_init host w h None None None \<and>
   KerberosAuthenticator_init host w (Some []) u p d =
     KerberosAuthenticator_init host w None u p d \<and>
   (case snd (KerberosAuthenticator_init host w (Some []) u p d) of
      Inl ex \<Rightarrow> True
    | Inr self \<Rightarrow> kerb_hostname self = None)"
  by (simp add: KerberosAuthenticator_init_def Let_def split: prod.splits option.splits)

end
